theory Spec2Isabelle
  imports Main "HOL-Library.Word" "HOL-Library.Sublist"
begin

section \<open>Webhook payloads (main.go, lines 231--276)\<close>

subsection \<open>Values of Go and of encoding/json\<close>

text \<open>
  A JSON text as the scanner of encoding/json reads it. Strings are byte sequences
  (UTF-8), a number keeps its literal, and an object keeps its members in the order of
  the text, duplicates included.
\<close>

datatype json =
    JNull
  | JBool bool
  | JNumber string
  | JString string
  | JArray "json list"
  | JObject "(string \<times> json) list"

text \<open>
  The bytes of a request body, as \<open>json.Unmarshal\<close> sees them: \<open>None\<close> when they are not
  one well-formed JSON text (the empty body included), the parsed value otherwise.
\<close>

type_synonym data = "json option"

datatype error =
    ReadError string
  | SyntaxError
  | UnmarshalTypeError string
  | PathError string
  | GitError string

text \<open>A call either returns or panics; the panic carries the runtime's message.\<close>

datatype 'a go = Return 'a | Panic string

text \<open>An \<open>io.Reader\<close>, by what \<open>ioutil.ReadAll\<close> makes of it.\<close>

datatype Reader = Broken error | Holding data

fun ReadAll :: "Reader \<Rightarrow> error + data" where
  "ReadAll (Broken err) = Inl err"
| "ReadAll (Holding d) = Inr d"

subsection \<open>The webhook structs and their \<open>Ref\<close> methods\<close>

record RefChange =
  RefID :: string

record BitbucketServerWebhook =
  RefChanges :: "RefChange list"

record GitLabWebhook =
  ref :: string

text \<open>
  The two types behind the interface \<open>Ref\<close>. An interface value is \<open>None\<close> when it is
  nil and \<open>Some\<close> of the struct its pointer leads to otherwise.
\<close>

datatype webhook =
    BitbucketServer BitbucketServerWebhook
  | GitLab GitLabWebhook

fun range_RefChanges :: "RefChange list \<Rightarrow> string" where
  "range_RefChanges [] = ''not master''"
| "range_RefChanges (r # rs) =
     (if RefID r = ''refs/heads/master'' then ''refs/heads/master''
      else range_RefChanges rs)"

definition BitbucketServerWebhook_Ref :: "BitbucketServerWebhook \<Rightarrow> string" where
  "BitbucketServerWebhook_Ref b = range_RefChanges (RefChanges b)"

definition GitLabWebhook_Ref :: "GitLabWebhook \<Rightarrow> string" where
  "GitLabWebhook_Ref w = ref w"

fun Ref :: "webhook \<Rightarrow> string" where
  "Ref (BitbucketServer b) = BitbucketServerWebhook_Ref b"
| "Ref (GitLab w) = GitLabWebhook_Ref w"

subsection \<open>\<open>json.Unmarshal\<close> into the two structs\<close>

text \<open>
  The decoder is the standard library's; its rules, as the package documents them, for
  the types at hand:
  \<^item> a member of a JSON object goes to the exported field whose key (the tag) equals
    the member's key, or equals it under case folding; other members are skipped, and
    an unexported field is never written;
  \<^item> \<open>null\<close> leaves a string or a struct as it is, and makes a slice or an interface nil;
  \<^item> a JSON array is decoded into a slice in place: each element into the record the
    slice already has at that index, if any, and into a zero value otherwise;
  \<^item> a value of the wrong kind for its target is an \<open>UnmarshalTypeError\<close>: the
    decoder keeps the first such error, decodes the rest, and returns the error at the end.
\<close>

definition toLower :: "char \<Rightarrow> char" where
  "toLower c =
     (case map_of (zip ''ABCDEFGHIJKLMNOPQRSTUVWXYZ'' ''abcdefghijklmnopqrstuvwxyz'') c of
        Some l \<Rightarrow> l
      | None \<Rightarrow> c)"

text \<open>
  Case folding of a key against an ASCII field name: letters match in either case, and
  the two code points that fold to ASCII letters, U+017F (long s) and U+212A (Kelvin
  sign), match \<open>s\<close> and \<open>k\<close>.
\<close>

fun equalFold :: "string \<Rightarrow> string \<Rightarrow> bool" where
  "equalFold [] t = (t = [])"
| "equalFold (sb # s) [] = False"
| "equalFold (sb # s) (tb # t) =
     (if toLower sb = toLower tb then equalFold s t
      else if toLower sb = CHR ''s'' \<and> tb = CHR 0xC5 \<and> take 1 t = [CHR 0xBF]
        then equalFold s (drop 1 t)
      else if toLower sb = CHR ''k'' \<and> tb = CHR 0xE2 \<and> take 2 t = [CHR 0x84, CHR 0xAA]
        then equalFold s (drop 2 t)
      else False)"

fun kind :: "json \<Rightarrow> string" where
  "kind JNull = ''null''"
| "kind (JBool b) = ''bool''"
| "kind (JNumber n) = ''number''"
| "kind (JString s) = ''string''"
| "kind (JArray js) = ''array''"
| "kind (JObject kvs) = ''object''"

text \<open>The decoder's \<open>saveError\<close>: the first error stays.\<close>

fun saveError :: "error option \<Rightarrow> error option \<Rightarrow> error option" where
  "saveError (Some e) later = Some e"
| "saveError None later = later"

fun decode_string :: "json \<Rightarrow> string \<Rightarrow> error option \<times> string" where
  "decode_string (JString s) cur = (None, s)"
| "decode_string JNull cur = (None, cur)"
| "decode_string j cur = (Some (UnmarshalTypeError (kind j)), cur)"

text \<open>The members of an object, into \<open>struct { RefID string `json:"refId"` }\<close>.\<close>

fun object_RefChange :: "(string \<times> json) list \<Rightarrow> RefChange \<Rightarrow> error option \<times> RefChange" where
  "object_RefChange [] r = (None, r)"
| "object_RefChange ((k, v) # kvs) r =
     (if equalFold ''refId'' k
      then (case decode_string v (RefID r) of (e, s) \<Rightarrow>
             (case object_RefChange kvs (r\<lparr>RefID := s\<rparr>) of (e', r') \<Rightarrow>
               (saveError e e', r')))
      else object_RefChange kvs r)"

fun decode_RefChange :: "json \<Rightarrow> RefChange \<Rightarrow> error option \<times> RefChange" where
  "decode_RefChange (JObject kvs) r = object_RefChange kvs r"
| "decode_RefChange JNull r = (None, r)"
| "decode_RefChange j r = (Some (UnmarshalTypeError (kind j)), r)"

text \<open>
  The elements of a JSON array, into a slice of records. The decoder works in place:
  the element at index \<open>i\<close> is decoded into the record that the slice's memory holds at
  index \<open>i\<close>, and into a zero record where the memory ends. \<open>store\<close> is that memory from
  the current index on; the function returns the decoded records and the memory behind
  them.
\<close>

fun array_RefChanges ::
  "json list \<Rightarrow> RefChange list \<Rightarrow> error option \<times> RefChange list \<times> RefChange list" where
  "array_RefChanges [] store = (None, [], store)"
| "array_RefChanges (j # js) store =
     (case decode_RefChange j (case store of [] \<Rightarrow> \<lparr>RefID = ''''\<rparr> | r # _ \<Rightarrow> r) of
        (e, r') \<Rightarrow>
          (case array_RefChanges js (drop 1 store) of
             (e', rs, rest) \<Rightarrow> (saveError e e', r' # rs, rest)))"

text \<open>
  A slice of records while it is decoded: the records within its length and, behind
  them, the records that a longer array has left in its memory (a member \<open>refChanges\<close>
  that occurs again is decoded into the same slice). An array with elements sets the
  length to their number; an empty array and \<open>null\<close> replace the slice by one without
  memory.
\<close>

type_synonym RefChange_slice = "RefChange list \<times> RefChange list"

fun decode_RefChanges :: "json \<Rightarrow> RefChange_slice \<Rightarrow> error option \<times> RefChange_slice" where
  "decode_RefChanges (JArray js) (cur, spare) =
     (if js = [] then (None, ([], []))
      else (case array_RefChanges js (cur @ spare) of (e, rs, rest) \<Rightarrow> (e, (rs, rest))))"
| "decode_RefChanges JNull (cur, spare) = (None, ([], []))"
| "decode_RefChanges j (cur, spare) = (Some (UnmarshalTypeError (kind j)), (cur, spare))"

text \<open>
  The members of an object, into \<open>BitbucketServerWebhook\<close>; \<open>spare\<close> is the memory behind
  the records of its slice.
\<close>

fun object_BitbucketServerWebhook ::
  "(string \<times> json) list \<Rightarrow> BitbucketServerWebhook \<times> RefChange list
     \<Rightarrow> error option \<times> BitbucketServerWebhook \<times> RefChange list" where
  "object_BitbucketServerWebhook [] (b, spare) = (None, (b, spare))"
| "object_BitbucketServerWebhook ((k, v) # kvs) (b, spare) =
     (if equalFold ''refChanges'' k
      then (case decode_RefChanges v (RefChanges b, spare) of (e, (rs, spare')) \<Rightarrow>
             (case object_BitbucketServerWebhook kvs (b\<lparr>RefChanges := rs\<rparr>, spare') of
                (e', res) \<Rightarrow> (saveError e e', res)))
      else object_BitbucketServerWebhook kvs (b, spare))"

text \<open>Into a struct whose slice has no memory behind its records, as a new struct has.\<close>

fun decode_BitbucketServerWebhook ::
  "json \<Rightarrow> BitbucketServerWebhook \<Rightarrow> error option \<times> BitbucketServerWebhook" where
  "decode_BitbucketServerWebhook (JObject kvs) b =
     (case object_BitbucketServerWebhook kvs (b, []) of (e, (b', spare)) \<Rightarrow> (e, b'))"
| "decode_BitbucketServerWebhook JNull b = (None, b)"
| "decode_BitbucketServerWebhook j b = (Some (UnmarshalTypeError (kind j)), b)"

text \<open>
  \<open>GitLabWebhook\<close> has one field, \<open>ref\<close>, and it is unexported: the decoder sees a struct
  without fields, skips every member of an object and writes nothing.
\<close>

fun decode_GitLabWebhook :: "json \<Rightarrow> GitLabWebhook \<Rightarrow> error option \<times> GitLabWebhook" where
  "decode_GitLabWebhook (JObject kvs) w = (None, w)"
| "decode_GitLabWebhook JNull w = (None, w)"
| "decode_GitLabWebhook j w = (Some (UnmarshalTypeError (kind j)), w)"

text \<open>
  \<open>json.Unmarshal(data, &s)\<close> for an interface variable \<open>s\<close> that holds a pointer to one
  of the structs. It returns the error and what \<open>s\<close> holds afterwards. Bytes that are
  not JSON are a \<open>SyntaxError\<close> before anything is written; the text \<open>null\<close> is stored in
  the interface itself, which becomes nil; every other value is decoded through the
  pointer into the struct.
\<close>

fun Unmarshal :: "data \<Rightarrow> webhook \<Rightarrow> error option \<times> webhook option" where
  "Unmarshal None s = (Some SyntaxError, Some s)"
| "Unmarshal (Some JNull) s = (None, None)"
| "Unmarshal (Some j) (BitbucketServer b) =
     (case decode_BitbucketServerWebhook j b of (e, b') \<Rightarrow> (e, Some (BitbucketServer b')))"
| "Unmarshal (Some j) (GitLab w) =
     (case decode_GitLabWebhook j w of (e, w') \<Rightarrow> (e, Some (GitLab w')))"

subsection \<open>\<open>unmarshalPayload\<close> (lines 263--276)\<close>

text \<open>\<open>[]interface{}{&BitbucketServerWebhook{}, &GitLabWebhook{}}\<close>\<close>

definition services :: "webhook list" where
  "services = [BitbucketServer \<lparr>RefChanges = []\<rparr>, GitLab \<lparr>ref = ''''\<rparr>]"

text \<open>
  The loop over \<open>services\<close>. The \<open>err\<close> of \<open>if err := json.Unmarshal(data, &s); err == nil\<close>
  is a new variable of the \<open>if\<close> statement; the \<open>err\<close> that the function returns after
  the loop is the one of \<open>ioutil.ReadAll\<close>, passed along here as \<open>err\<close>. The type
  assertion \<open>s.(Ref)\<close> panics on a nil interface.
\<close>

fun range_services ::
  "data \<Rightarrow> error option \<Rightarrow> webhook list \<Rightarrow> (webhook option \<times> error option) go" where
  "range_services d err [] = Return (None, err)"
| "range_services d err (s # ss) =
     (case Unmarshal d s of
        (None, None) \<Rightarrow> Panic ''interface conversion: interface is nil, not main.Ref''
      | (None, Some s') \<Rightarrow> Return (Some s', None)
      | (Some err', _) \<Rightarrow> range_services d err ss)"

definition unmarshalPayload :: "Reader \<Rightarrow> (webhook option \<times> error option) go" where
  "unmarshalPayload r =
     (case ReadAll r of
        Inl err \<Rightarrow> Return (None, Some err)
      | Inr d \<Rightarrow> range_services d None services)"

section \<open>The file system and the repository, as the handler sees them\<close>

record Config =
  HookPath :: string
  Host :: string
  Port :: "16 word"

text \<open>
  \<open>filepath.Join\<close> is kept uninterpreted: a path is the list of elements that were
  joined, so whatever the library makes of them, \<open>os.Stat\<close> and the repository table are
  functions of it.
\<close>

datatype path = Join "string list"

record FileInfo =
  IsDir :: bool

text \<open>
  The part of a git repository that the claims speak about: its remotes, its direct
  references, where HEAD points, and whether a merge is in progress. A remote is given by
  the remote-tracking references that a fetch from it writes. The working directory, the
  index and the object database stay outside the model (their operations can only fail
  or succeed), and every reference below \<open>refs/\<close> is taken to be a direct one.
\<close>

type_synonym Oid = nat

type_synonym Remote = "string \<rightharpoonup> Oid"

datatype Head = Attached string | Detached Oid

datatype RepositoryState = StateNone | StateMerge

record Repository =
  remotes :: "string \<rightharpoonup> Remote"
  references :: "string \<rightharpoonup> Oid"
  HEAD :: Head
  state :: RepositoryState

record Reference =
  Name :: string
  Target :: Oid

text \<open>
  The library calls of the handler, one name for each call site. Any of them can fail for
  a reason outside the model (the network, a lock file, permissions, a damaged object):
  \<open>fault\<close> says which ones do, and with what error.
\<close>

datatype step =
    Open | RemoteLookup | FetchOrigin | RemoteRefLookup | AnnotatedCommit | MergeRemote
  | CommitLookup | TreeLookup | Checkout | HeadLookup | LocalRefLookup
  | SetLocalTarget | SetHeadTarget | Cleanup

record world =
  Stat :: "path \<Rightarrow> error + FileInfo"
  repositories :: "path \<rightharpoonup> Repository"
  fault :: "step \<Rightarrow> error option"

definition attempt :: "(step \<Rightarrow> error option) \<Rightarrow> step \<Rightarrow> error + 'a \<Rightarrow> error + 'a" where
  "attempt f st res = (case f st of Some err \<Rightarrow> Inl err | None \<Rightarrow> res)"

definition OpenRepositoryExtended :: "world \<Rightarrow> path \<Rightarrow> error + Repository" where
  "OpenRepositoryExtended w p =
     attempt (fault w) Open
       (case repositories w p of
          None \<Rightarrow> Inl (GitError ''could not find repository'')
        | Some repo \<Rightarrow> Inr repo)"

definition LookupRemote :: "(step \<Rightarrow> error option) \<Rightarrow> Repository \<Rightarrow> string \<Rightarrow> error + Remote" where
  "LookupRemote f repo name =
     attempt f RemoteLookup
       (case remotes repo name of
          None \<Rightarrow> Inl (GitError ''remote does not exist'')
        | Some remote \<Rightarrow> Inr remote)"

definition Fetch :: "(step \<Rightarrow> error option) \<Rightarrow> Remote \<Rightarrow> Repository \<Rightarrow> error + Repository" where
  "Fetch f remote repo =
     attempt f FetchOrigin (Inr (repo\<lparr>references := references repo ++ remote\<rparr>))"

definition LookupReference ::
  "(step \<Rightarrow> error option) \<Rightarrow> step \<Rightarrow> Repository \<Rightarrow> string \<Rightarrow> error + Reference" where
  "LookupReference f st repo name =
     attempt f st
       (case references repo name of
          None \<Rightarrow> Inl (GitError ''reference not found'')
        | Some oid \<Rightarrow> Inr \<lparr>Name = name, Target = oid\<rparr>)"

definition AnnotatedCommitFromRef :: "(step \<Rightarrow> error option) \<Rightarrow> Reference \<Rightarrow> error + Oid" where
  "AnnotatedCommitFromRef f r = attempt f AnnotatedCommit (Inr (Target r))"

definition Merge :: "(step \<Rightarrow> error option) \<Rightarrow> Repository \<Rightarrow> Oid list \<Rightarrow> error + Repository" where
  "Merge f repo heads = attempt f MergeRemote (Inr (repo\<lparr>state := StateMerge\<rparr>))"

definition LookupCommit :: "(step \<Rightarrow> error option) \<Rightarrow> Oid \<Rightarrow> error + Oid" where
  "LookupCommit f oid = attempt f CommitLookup (Inr oid)"

definition Tree :: "(step \<Rightarrow> error option) \<Rightarrow> Oid \<Rightarrow> error + Oid" where
  "Tree f commit = attempt f TreeLookup (Inr commit)"

definition CheckoutTree :: "(step \<Rightarrow> error option) \<Rightarrow> Repository \<Rightarrow> Oid \<Rightarrow> error + Repository" where
  "CheckoutTree f repo tree = attempt f Checkout (Inr repo)"

text \<open>
  \<open>repo.Head()\<close> resolves HEAD: to the branch it is attached to (an error when that
  branch has no commit yet), or to HEAD itself when it is detached.
\<close>

definition Head :: "(step \<Rightarrow> error option) \<Rightarrow> Repository \<Rightarrow> error + Reference" where
  "Head f repo =
     attempt f HeadLookup
       (case HEAD repo of
          Detached oid \<Rightarrow> Inr \<lparr>Name = ''HEAD'', Target = oid\<rparr>
        | Attached name \<Rightarrow>
            (case references repo name of
               None \<Rightarrow> Inl (GitError ''unborn branch'')
             | Some oid \<Rightarrow> Inr \<lparr>Name = name, Target = oid\<rparr>))"

definition SetTarget ::
  "(step \<Rightarrow> error option) \<Rightarrow> step \<Rightarrow> Repository \<Rightarrow> Reference \<Rightarrow> Oid \<Rightarrow> error + Repository" where
  "SetTarget f st repo r oid =
     attempt f st
       (Inr (if Name r = ''HEAD'' then repo\<lparr>HEAD := Detached oid\<rparr>
             else repo\<lparr>references := (references repo)(Name r \<mapsto> oid)\<rparr>))"

definition StateCleanup :: "(step \<Rightarrow> error option) \<Rightarrow> Repository \<Rightarrow> error + Repository" where
  "StateCleanup f repo = attempt f Cleanup (Inr (repo\<lparr>state := StateNone\<rparr>))"

text \<open>The commit that HEAD resolves to, if any.\<close>

definition resolve_HEAD :: "Repository \<Rightarrow> Oid option" where
  "resolve_HEAD repo =
     (case HEAD repo of Detached oid \<Rightarrow> Some oid | Attached name \<Rightarrow> references repo name)"

section \<open>\<open>handleWebhook\<close> (lines 278--401)\<close>

text \<open>
  What a run of the handler does, in order: the lines it logs (by their format strings,
  without the final newline), the mutex operations, the calls to \<open>os.Stat\<close> and to the git
  library, and the response it writes. \<open>Respond code body\<close> is a response with that
  status and that body, as handed to the \<open>ResponseWriter\<close>: \<open>w.WriteHeader(200)\<close> followed
  by \<open>w.Write([]byte("ok"))\<close> is \<open>Respond 200 ''ok''\<close>.
\<close>

datatype event =
    Log string
  | Lock
  | Unlock
  | Os_Stat path
  | Git step
  | Respond nat string

record Request =
  Body :: Reader
  URL_Path :: string

record result =
  trace :: "event list"
  after :: world
  panic :: "string option"

text \<open>
  \<open>http.Error(w, text, code)\<close> of net/http writes the status and then the text with
  \<open>fmt.Fprintln\<close>: the body is the text followed by a newline.
\<close>

definition http_Error :: "string \<Rightarrow> nat \<Rightarrow> event" where
  "http_Error text code = Respond code (text @ [CHR 0x0A])"

definition http500 :: "string \<Rightarrow> event list" where
  "http500 msg = [Log msg, http_Error ''500'' 500]"

text \<open>
  The pattern of every checked library call: the call is made; on an error the handler
  logs, answers through \<open>http500\<close> and returns, leaving the repository as it is then;
  otherwise it goes on with the result.
\<close>

definition checked ::
  "step \<Rightarrow> error + 'a \<Rightarrow> string \<Rightarrow> Repository \<Rightarrow> ('a \<Rightarrow> event list \<times> Repository)
     \<Rightarrow> event list \<times> Repository" where
  "checked st res msg repo continue =
     (case res of
        Inl err \<Rightarrow> (Git st # http500 msg, repo)
      | Inr x \<Rightarrow> (case continue x of (evs, repo') \<Rightarrow> (Git st # evs, repo')))"

text \<open>A call whose results are dropped: on an error the repository stays as it was.\<close>

definition dropped :: "error + Repository \<Rightarrow> Repository \<Rightarrow> Repository" where
  "dropped res repo = (case res of Inl err \<Rightarrow> repo | Inr repo' \<Rightarrow> repo')"

text \<open>Lines 334--400: the work on the opened repository.\<close>

definition synchronize :: "(step \<Rightarrow> error option) \<Rightarrow> Repository \<Rightarrow> event list \<times> Repository" where
  "synchronize f repo =
     checked RemoteLookup (LookupRemote f repo ''origin'')
       (''could not lookup remote 'origin'' @ [CHR 0x27]) repo (\<lambda>remote.
     checked FetchOrigin (Fetch f remote repo)
       ''could not fetch 'origin': %s'' repo (\<lambda>fetched.
     checked RemoteRefLookup (LookupReference f RemoteRefLookup fetched ''refs/remotes/origin/master'')
       ''could not lookup 'refs/remotes/origin/master': %s'' fetched (\<lambda>remoteRef.
     let remoteTarget = Target remoteRef in
     checked AnnotatedCommit (AnnotatedCommitFromRef f remoteRef)
       ''could not get commit from ref: %s'' fetched (\<lambda>remHead.
     checked MergeRemote (Merge f fetched [remHead])
       ''could not merge origin/master into local repo: %s'' fetched (\<lambda>merged.
     checked CommitLookup (LookupCommit f remoteTarget)
       ''could not lookup commit on remote: %s'' merged (\<lambda>remCommit.
     checked TreeLookup (Tree f remCommit)
       ''could not lookup remote tree: %s'' merged (\<lambda>remTree.
     checked Checkout (CheckoutTree f merged remTree)
       ''could not checkout remote tree: %s'' merged (\<lambda>checkedout.
     checked HeadLookup (Head f checkedout)
       ''could not get head: %s'' checkedout (\<lambda>head.
     checked LocalRefLookup (LookupReference f LocalRefLookup checkedout ''refs/heads/master'')
       ''could not lookup local master: %s'' checkedout (\<lambda>localBranch.
     let repo1 = dropped (SetTarget f SetLocalTarget checkedout localBranch remoteTarget) checkedout;
         repo2 = dropped (SetTarget f SetHeadTarget repo1 head remoteTarget) repo1;
         repo3 = dropped (StateCleanup f repo2) repo2
     in ([Git SetLocalTarget, Git SetHeadTarget, Git Cleanup,
          Log ''repository '%s' updated.'', Respond 200 ''ok''], repo3)))))))))))"

text \<open>
  Lines 300--332: the two \<open>os.Stat\<close> checks and the opening of the repository, then the
  work above. The repository on disk is left as the last library call left it.
\<close>

definition guarded :: "Config \<Rightarrow> world \<Rightarrow> string \<Rightarrow> event list \<times> world" where
  "guarded c w urlpath =
     (let dir = Join [HookPath c, urlpath] in
      case Stat w dir of
        Inl err \<Rightarrow>
          ([Os_Stat dir, Log ''invalid repository '%s': %s'', http_Error ''404'' 404], w)
      | Inr f \<Rightarrow>
          if \<not> IsDir f then
            ([Os_Stat dir, Log (''not a directory: '%s'' @ [CHR 0x27]), http_Error ''404'' 404], w)
          else
            (let rdir = Join [HookPath c, urlpath, ''.git''] in
             case Stat w rdir of
               Inl err \<Rightarrow>
                 ([Os_Stat dir, Os_Stat rdir, Log ''not a git repository'', http_Error ''403'' 403], w)
             | Inr f \<Rightarrow>
                 if \<not> IsDir f then
                   ([Os_Stat dir, Os_Stat rdir, Log ''.git a file, not a repository'',
                     http_Error ''403'' 403], w)
                 else
                   (case OpenRepositoryExtended w rdir of
                      Inl err \<Rightarrow>
                        ([Os_Stat dir, Os_Stat rdir, Git Open]
                           @ http500 ''could not open git repository'', w)
                    | Inr repo \<Rightarrow>
                        (case synchronize (fault w) repo of (evs, repo') \<Rightarrow>
                          ([Os_Stat dir, Os_Stat rdir, Git Open] @ evs,
                           w\<lparr>repositories := (repositories w)(rdir \<mapsto> repo')\<rparr>)))))"

text \<open>
  The handler. A panic leaves it before anything is written. \<open>defer mutex.Unlock()\<close>
  runs when the function returns, after the response has been handed to the
  \<open>ResponseWriter\<close>.
\<close>

definition handleWebhook :: "Config \<Rightarrow> world \<Rightarrow> Request \<Rightarrow> result" where
  "handleWebhook c w r =
     (case unmarshalPayload (Body r) of
        Panic p \<Rightarrow> \<lparr>trace = [], after = w, panic = Some p\<rparr>
      | Return (ref', err) \<Rightarrow>
          (case err of
             Some e \<Rightarrow> \<lparr>trace = http500 ''invalid payload: %s'', after = w, panic = None\<rparr>
           | None \<Rightarrow>
               (case ref' of
                  None \<Rightarrow>
                    \<lparr>trace = [], after = w,
                     panic = Some ''runtime error: invalid memory address or nil pointer dereference''\<rparr>
                | Some s \<Rightarrow>
                    if Ref s \<noteq> ''refs/heads/master'' then
                      \<lparr>trace = http500 ''ignoring changeset on '%s', not a change on master'',
                       after = w, panic = None\<rparr>
                    else
                      (case guarded c w (URL_Path r) of (evs, w') \<Rightarrow>
                        \<lparr>trace = [Log (''updating repository '%s'' @ [CHR 0x27]), Lock] @ evs @ [Unlock],
                         after = w', panic = None\<rparr>))))"

text \<open>The responses written during a run, as (status, text).\<close>

fun responses :: "event list \<Rightarrow> (nat \<times> string) list" where
  "responses [] = []"
| "responses (Respond code text # evs) = (code, text) # responses evs"
| "responses (ev # evs) = responses evs"



section \<open>The words of the specification\<close>

subsection \<open>The ref-change-list schema\<close>

text \<open>
  The values of the members of an object that go to the field with the given key.
\<close>

definition members :: "string \<Rightarrow> (string \<times> json) list \<Rightarrow> json list" where
  "members name kvs = map snd (filter (\<lambda>(k, v). equalFold name k) kvs)"

text \<open>
  A change record is an object with one member \<open>refId\<close>, a string; it may have any other
  members. A payload of the schema is an object with one member \<open>refChanges\<close>, a list of
  change records; it may have any other members. \<open>refChange_records\<close> gives the
  identifiers of the records of such a payload, in their order, and \<open>None\<close> for a value
  of another shape.
\<close>

fun record_refId :: "json \<Rightarrow> string option" where
  "record_refId (JObject kvs) =
     (case members ''refId'' kvs of [JString i] \<Rightarrow> Some i | _ \<Rightarrow> None)"
| "record_refId j = None"

fun refChange_records :: "json \<Rightarrow> string list option" where
  "refChange_records (JObject kvs) =
     (case members ''refChanges'' kvs of
        [JArray recs] \<Rightarrow> those (map record_refId recs)
      | _ \<Rightarrow> None)"
| "refChange_records j = None"

definition ascii :: "string \<Rightarrow> bool" where
  "ascii k = list_all (\<lambda>c. (of_char c :: nat) < 128) k"

subsection \<open>The steps of the synchronization that can fail the request\<close>



subsection \<open>Several deliveries at once\<close>








section \<open>Example deployment\<close>

text \<open>
  A hook directory \<open>/srv/hooks\<close> that holds the repository \<open>demo\<close> and a directory
  \<open>not-a-repo\<close> without \<open>.git\<close>. In \<open>demo\<close>, local master and the remote-tracking branch
  are at commit 1, and the remote \<open>origin\<close> has moved master to commit 2.
\<close>

definition config :: Config where
  "config = \<lparr>HookPath = ''/srv/hooks'', Host = ''0.0.0.0'', Port = 8080\<rparr>"

definition demo_repo :: Repository where
  "demo_repo =
     \<lparr>remotes = [''origin'' \<mapsto> [''refs/remotes/origin/master'' \<mapsto> 2]],
      references = [''refs/heads/master'' \<mapsto> 1, ''refs/remotes/origin/master'' \<mapsto> 1],
      HEAD = Attached ''refs/heads/master'',
      state = StateNone\<rparr>"

definition demo_git :: path where
  "demo_git = Join [''/srv/hooks'', ''/demo'', ''.git'']"

definition hooks :: "(step \<Rightarrow> error option) \<Rightarrow> world" where
  "hooks f =
     \<lparr>Stat = (\<lambda>p. if p = Join [''/srv/hooks'', ''/demo''] \<or> p = demo_git
                     \<or> p = Join [''/srv/hooks'', ''/not-a-repo'']
                  then Inr \<lparr>IsDir = True\<rparr>
                  else Inl (PathError ''no such file or directory'')),
      repositories = [demo_git \<mapsto> demo_repo],
      fault = f\<rparr>"

definition healthy :: "step \<Rightarrow> error option" where
  "healthy st = None"

text \<open>A stale lock file on \<open>refs/heads/master\<close>: both writes of that reference fail.\<close>

definition locked :: "step \<Rightarrow> error option" where
  "locked st =
     (if st = SetLocalTarget \<or> st = SetHeadTarget
      then Some (GitError ''failed to lock file for writing'')
      else None)"

definition post :: "string \<Rightarrow> data \<Rightarrow> Request" where
  "post urlpath d = \<lparr>Body = Holding d, URL_Path = urlpath\<rparr>"

text \<open>\<open>{"refChanges":[{"refId":"refs/heads/master"}]}\<close>\<close>

definition push_master :: json where
  "push_master =
     JObject [(''refChanges'', JArray [JObject [(''refId'', JString ''refs/heads/master'')]])]"

text \<open>\<open>{"refChanges":[{"refId":"refs/heads/feature-x"}]}\<close>\<close>

definition push_feature :: json where
  "push_feature =
     JObject [(''refChanges'', JArray [JObject [(''refId'', JString ''refs/heads/feature-x'')]])]"

text \<open>\<open>{"ref":"refs/heads/master"}\<close>, a push to master as GitLab sends it.\<close>

definition gitlab_push_master :: json where
  "gitlab_push_master = JObject [(''ref'', JString ''refs/heads/master'')]"

text \<open>The commit of local master in \<open>demo\<close>, and of its remote-tracking branch.\<close>

definition demo_reference :: "world \<Rightarrow> string \<Rightarrow> Oid option" where
  "demo_reference w name =
     (case repositories w demo_git of None \<Rightarrow> None | Some repo \<Rightarrow> references repo name)"

definition demo_HEAD :: "world \<Rightarrow> Oid option" where
  "demo_HEAD w =
     (case repositories w demo_git of None \<Rightarrow> None | Some repo \<Rightarrow> resolve_HEAD repo)"

text \<open>
  Two deliveries of the same push to \<open>demo\<close>, with no new commit on the remote in
  between: the first one while the lock file is there, the second one after it is gone.
\<close>

definition first_run :: result where
  "first_run = handleWebhook config (hooks locked) (post ''/demo'' (Some push_master))"

definition second_run :: result where
  "second_run =
     handleWebhook config ((after first_run)\<lparr>fault := healthy\<rparr>)
       (post ''/demo'' (Some push_master))"

text \<open>
  The state that a synchronization is meant to reach: the remote-tracking branch, local
  master and HEAD are at the same commit.
\<close>

definition in_sync :: "Repository \<Rightarrow> bool" where
  "in_sync repo =
     (\<exists>t. references repo ''refs/remotes/origin/master'' = Some t
         \<and> references repo ''refs/heads/master'' = Some t
         \<and> resolve_HEAD repo = Some t)"

text \<open>
  A push to master as Bitbucket Server sends it, with members that the handler does not
  read.
\<close>

definition bitbucket_push :: json where
  "bitbucket_push =
     JObject
       [(''repository'', JObject [(''slug'', JString ''demo'')]),
        (''refChanges'',
           JArray [JObject [(''refId'', JString ''refs/heads/master''),
                            (''fromHash'', JString ''0a1b''),
                            (''toHash'', JString ''2c3d''),
                            (''type'', JString ''UPDATE'')]]),
        (''changesets'', JObject [])]"



section \<open>Properties of the payload decoding\<close>

lemma range_RefChanges_iff:
  "range_RefChanges rs =
     (if \<exists>r \<in> set rs. RefID r = ''refs/heads/master'' then ''refs/heads/master''
      else ''not master'')"
  by (induction rs) auto

lemma unmarshalPayload_object:
  "unmarshalPayload (Holding (Some (JObject kvs))) =
     (case decode_BitbucketServerWebhook (JObject kvs) \<lparr>RefChanges = []\<rparr> of
        (None, b) \<Rightarrow> Return (Some (BitbucketServer b), None)
      | (Some e, b) \<Rightarrow> Return (Some (GitLab \<lparr>ref = ''''\<rparr>), None))"
  by (simp add: unmarshalPayload_def services_def split: prod.splits option.splits)

lemma equalFold_ascii:
  "ascii k \<Longrightarrow> equalFold name k = (map toLower name = map toLower k)"
proof (induction name k rule: equalFold.induct)
  case (1 t)
  then show ?case by auto
next
  case (2 sb s)
  then show ?case by simp
next
  case (3 sb s tb t)
  from "3.prems" have a: "(of_char tb :: nat) < 128" and k: "ascii t"
    by (simp_all add: ascii_def)
  from a have "tb \<noteq> CHR 0xC5" and "tb \<noteq> CHR 0xE2" by auto
  with 3 k show ?case by simp
qed

lemma object_RefChange_none:
  "members ''refId'' kvs = [] \<Longrightarrow> object_RefChange kvs r = (None, r)"
  by (induction kvs arbitrary: r) (auto simp: members_def)

lemma object_RefChange_one:
  "members ''refId'' kvs = [JString i] \<Longrightarrow> object_RefChange kvs r = (None, r\<lparr>RefID := i\<rparr>)"
proof (induction kvs arbitrary: r)
  case Nil
  then show ?case by (simp add: members_def)
next
  case (Cons kv kvs)
  obtain k v where kv: "kv = (k, v)" by (cases kv)
  show ?case
  proof (cases "equalFold ''refId'' k")
    case True
    with Cons.prems kv have v: "v = JString i" and n: "members ''refId'' kvs = []"
      by (simp_all add: members_def)
    from n have "object_RefChange kvs (r\<lparr>RefID := i\<rparr>) = (None, r\<lparr>RefID := i\<rparr>)"
      by (rule object_RefChange_none)
    with True kv v show ?thesis by simp
  next
    case False
    with Cons.prems kv have "members ''refId'' kvs = [JString i]"
      by (simp add: members_def)
    then have "object_RefChange kvs r = (None, r\<lparr>RefID := i\<rparr>)" by (rule Cons.IH)
    with False kv show ?thesis by simp
  qed
qed

lemma decode_RefChange_record:
  assumes "record_refId j = Some i"
  shows "decode_RefChange j \<lparr>RefID = ''''\<rparr> = (None, \<lparr>RefID = i\<rparr>)"
proof (cases j)
  case (JObject kvs)
  with assms have "members ''refId'' kvs = [JString i]"
    by (auto split: list.splits json.splits)
  with JObject show ?thesis by (simp add: object_RefChange_one)
qed (use assms in simp_all)

lemma array_RefChanges_records:
  "those (map record_refId recs) = Some ids \<Longrightarrow>
     array_RefChanges recs [] = (None, map (\<lambda>i. \<lparr>RefID = i\<rparr>) ids, [])"
proof (induction recs arbitrary: ids)
  case Nil
  then show ?case by simp
next
  case (Cons j recs)
  from Cons.prems obtain i ids' where i: "record_refId j = Some i"
    and t: "those (map record_refId recs) = Some ids'" and ids: "ids = i # ids'"
    by (auto split: option.splits)
  from t have "array_RefChanges recs [] = (None, map (\<lambda>i. \<lparr>RefID = i\<rparr>) ids', [])"
    by (rule Cons.IH)
  with i ids show ?case by (simp add: decode_RefChange_record)
qed

lemma object_BitbucketServerWebhook_none:
  "members ''refChanges'' kvs = [] \<Longrightarrow> object_BitbucketServerWebhook kvs st = (None, st)"
  by (induction kvs arbitrary: st) (auto simp: members_def)

lemma object_BitbucketServerWebhook_one:
  assumes "members ''refChanges'' kvs = [JArray recs]"
    and "those (map record_refId recs) = Some ids"
  shows "object_BitbucketServerWebhook kvs (\<lparr>RefChanges = []\<rparr>, []) =
           (None, (\<lparr>RefChanges = map (\<lambda>i. \<lparr>RefID = i\<rparr>) ids\<rparr>, []))"
  using assms(1)
proof (induction kvs)
  case Nil
  then show ?case by (simp add: members_def)
next
  case (Cons kv kvs)
  obtain k v where kv: "kv = (k, v)" by (cases kv)
  show ?case
  proof (cases "equalFold ''refChanges'' k")
    case True
    with Cons.prems kv have v: "v = JArray recs" and n: "members ''refChanges'' kvs = []"
      by (simp_all add: members_def)
    have d: "decode_RefChanges (JArray recs) ([], []) =
               (None, (map (\<lambda>i. \<lparr>RefID = i\<rparr>) ids, []))"
      using assms(2) array_RefChanges_records [OF assms(2)] by (cases recs) auto
    from n have "object_BitbucketServerWebhook kvs
                   (\<lparr>RefChanges = map (\<lambda>i. \<lparr>RefID = i\<rparr>) ids\<rparr>, []) =
                 (None, (\<lparr>RefChanges = map (\<lambda>i. \<lparr>RefID = i\<rparr>) ids\<rparr>, []))"
      by (rule object_BitbucketServerWebhook_none)
    with True kv v d show ?thesis by simp
  next
    case False
    with Cons.prems kv have "members ''refChanges'' kvs = [JArray recs]"
      by (simp add: members_def)
    with Cons.IH False kv show ?thesis by simp
  qed
qed

lemma decode_refChange_records:
  assumes "refChange_records j = Some ids"
  shows "decode_BitbucketServerWebhook j \<lparr>RefChanges = []\<rparr> =
           (None, \<lparr>RefChanges = map (\<lambda>i. \<lparr>RefID = i\<rparr>) ids\<rparr>)"
proof (cases j)
  case (JObject kvs)
  with assms obtain recs where m: "members ''refChanges'' kvs = [JArray recs]"
    and t: "those (map record_refId recs) = Some ids"
    by (auto split: list.splits json.splits)
  from JObject object_BitbucketServerWebhook_one [OF m t] show ?thesis by simp
qed (use assms in simp_all)

text \<open>
  Claim C6. For every payload of the ref-change-list schema (a JSON object with one
  member \<open>refChanges\<close>, a list of objects each with one member \<open>refId\<close>, a string; the
  payload and its records may have any other members, before or after),
  \<open>unmarshalPayload\<close> returns a \<open>BitbucketServerWebhook\<close> whose records are the records of
  the payload, in their order, with a nil error; its \<open>Ref()\<close> is \<open>refs/heads/master\<close> if
  and only if some record of the payload has exactly that \<open>refId\<close>, and \<open>not master\<close>
  otherwise. A member goes to a field when its key is the field's name up to the case of
  its letters: on keys of ASCII characters \<open>equalFold\<close> is equality of the lower-cased
  strings. The same report holds of every JSON object that the decoder decodes without
  error, whatever its members, with the decoded records in place of the payload's. The
  witness has a push to master with other members around \<open>refChanges\<close> and in its record,
  the payload with zero records, which reports \<open>not master\<close>, and a payload whose
  \<open>refChanges\<close> member is repeated.
\<close>

theorem C6_ref_change_list:
  assumes "refChange_records j = Some ids"
  shows "unmarshalPayload (Holding (Some j)) =
           Return (Some (BitbucketServer \<lparr>RefChanges = map (\<lambda>i. \<lparr>RefID = i\<rparr>) ids\<rparr>), None)
       \<and> Ref (BitbucketServer \<lparr>RefChanges = map (\<lambda>i. \<lparr>RefID = i\<rparr>) ids\<rparr>) =
           (if ''refs/heads/master'' \<in> set ids then ''refs/heads/master'' else ''not master'')
       \<and> (ascii k \<longrightarrow> equalFold name k = (map toLower name = map toLower k))
       \<and> (decode_BitbucketServerWebhook (JObject kvs) \<lparr>RefChanges = []\<rparr> = (None, b) \<longrightarrow>
            unmarshalPayload (Holding (Some (JObject kvs))) =
              Return (Some (BitbucketServer b), None)
            \<and> Ref (BitbucketServer b) =
                (if \<exists>r \<in> set (RefChanges b). RefID r = ''refs/heads/master''
                 then ''refs/heads/master'' else ''not master''))"
proof (intro conjI impI)
  from assms obtain kvs' where j: "j = JObject kvs'"
    by (cases j) simp_all
  from decode_refChange_records [OF assms] j
  show "unmarshalPayload (Holding (Some j)) =
           Return (Some (BitbucketServer \<lparr>RefChanges = map (\<lambda>i. \<lparr>RefID = i\<rparr>) ids\<rparr>), None)"
    by (simp add: unmarshalPayload_object)
  show "Ref (BitbucketServer \<lparr>RefChanges = map (\<lambda>i. \<lparr>RefID = i\<rparr>) ids\<rparr>) =
           (if ''refs/heads/master'' \<in> set ids then ''refs/heads/master'' else ''not master'')"
    by (auto simp: BitbucketServerWebhook_Ref_def range_RefChanges_iff)
next
  assume "ascii k"
  then show "equalFold name k = (map toLower name = map toLower k)"
    by (rule equalFold_ascii)
next
  assume d: "decode_BitbucketServerWebhook (JObject kvs) \<lparr>RefChanges = []\<rparr> = (None, b)"
  then show "unmarshalPayload (Holding (Some (JObject kvs))) =
              Return (Some (BitbucketServer b), None)"
    by (simp add: unmarshalPayload_object)
  show "Ref (BitbucketServer b) =
                (if \<exists>r \<in> set (RefChanges b). RefID r = ''refs/heads/master''
                 then ''refs/heads/master'' else ''not master'')"
    by (simp add: BitbucketServerWebhook_Ref_def range_RefChanges_iff)
qed

theorem C6_ref_change_list_witness:
  "refChange_records bitbucket_push = Some [''refs/heads/master'']
   \<and> unmarshalPayload (Holding (Some bitbucket_push)) =
       Return (Some (BitbucketServer \<lparr>RefChanges = [\<lparr>RefID = ''refs/heads/master''\<rparr>]\<rparr>), None)
   \<and> Ref (BitbucketServer \<lparr>RefChanges = [\<lparr>RefID = ''refs/heads/master''\<rparr>]\<rparr>)
       = ''refs/heads/master''
   \<and> refChange_records (JObject [(''refChanges'', JArray [])]) = Some []
   \<and> unmarshalPayload (Holding (Some (JObject [(''refChanges'', JArray [])]))) =
       Return (Some (BitbucketServer \<lparr>RefChanges = []\<rparr>), None)
   \<and> Ref (BitbucketServer \<lparr>RefChanges = []\<rparr>) = ''not master''
   \<and> ascii ''REFCHANGES'' \<and> equalFold ''refChanges'' ''REFCHANGES''
   \<and> ascii ''repository'' \<and> \<not> equalFold ''refChanges'' ''repository''
   \<and> decode_BitbucketServerWebhook
         (JObject [(''refChanges'', JArray [JObject [(''refId'', JString ''refs/heads/master'')]]),
                   (''refChanges'', JArray [JObject []])])
         \<lparr>RefChanges = []\<rparr> = (None, \<lparr>RefChanges = [\<lparr>RefID = ''refs/heads/master''\<rparr>]\<rparr>)
   \<and> unmarshalPayload (Holding (Some
         (JObject [(''refChanges'', JArray [JObject [(''refId'', JString ''refs/heads/master'')]]),
                   (''refChanges'', JArray [JObject []])]))) =
       Return (Some (BitbucketServer \<lparr>RefChanges = [\<lparr>RefID = ''refs/heads/master''\<rparr>]\<rparr>), None)"
proof -
  have h1: "refChange_records bitbucket_push = Some [''refs/heads/master'']"
    by (simp add: bitbucket_push_def members_def toLower_def)
  have h2: "refChange_records (JObject [(''refChanges'', JArray [])]) = Some []"
    by (simp add: members_def toLower_def)
  have h3: "ascii ''REFCHANGES''" and h4: "ascii ''repository''"
    by (simp_all add: ascii_def)
  have h5: "decode_BitbucketServerWebhook
         (JObject [(''refChanges'', JArray [JObject [(''refId'', JString ''refs/heads/master'')]]),
                   (''refChanges'', JArray [JObject []])])
         \<lparr>RefChanges = []\<rparr> = (None, \<lparr>RefChanges = [\<lparr>RefID = ''refs/heads/master''\<rparr>]\<rparr>)"
    by (simp add: toLower_def)
  note a = C6_ref_change_list [OF h1, where k = "''REFCHANGES''" and name = "''refChanges''"
             and kvs = "[(''refChanges'', JArray [JObject [(''refId'', JString ''refs/heads/master'')]]),
                         (''refChanges'', JArray [JObject []])]"
             and b = "\<lparr>RefChanges = [\<lparr>RefID = ''refs/heads/master''\<rparr>]\<rparr>"]
  note b = C6_ref_change_list [OF h2, where k = "''repository''" and name = "''refChanges''"
             and kvs = "[(''refChanges'', JArray [])]" and b = "\<lparr>RefChanges = []\<rparr>"]
  from a [THEN conjunct2, THEN conjunct2, THEN conjunct1] h3
  have "equalFold ''refChanges'' ''REFCHANGES'' =
          (map toLower ''refChanges'' = map toLower ''REFCHANGES'')"
    by (rule mp)
  then have e1: "equalFold ''refChanges'' ''REFCHANGES''"
    by (simp add: toLower_def)
  from b [THEN conjunct2, THEN conjunct2, THEN conjunct1] h4
  have "equalFold ''refChanges'' ''repository'' =
          (map toLower ''refChanges'' = map toLower ''repository'')"
    by (rule mp)
  then have e2: "\<not> equalFold ''refChanges'' ''repository''"
    by (simp add: toLower_def)
  from a [THEN conjunct1]
  have r1: "unmarshalPayload (Holding (Some bitbucket_push)) =
       Return (Some (BitbucketServer \<lparr>RefChanges = [\<lparr>RefID = ''refs/heads/master''\<rparr>]\<rparr>), None)"
    by simp
  from a [THEN conjunct2, THEN conjunct1]
  have r2: "Ref (BitbucketServer \<lparr>RefChanges = [\<lparr>RefID = ''refs/heads/master''\<rparr>]\<rparr>)
       = ''refs/heads/master''"
    by simp
  from b [THEN conjunct1]
  have r3: "unmarshalPayload (Holding (Some (JObject [(''refChanges'', JArray [])]))) =
       Return (Some (BitbucketServer \<lparr>RefChanges = []\<rparr>), None)"
    by simp
  from b [THEN conjunct2, THEN conjunct1]
  have r4: "Ref (BitbucketServer \<lparr>RefChanges = []\<rparr>) = ''not master''"
    by simp
  from a [THEN conjunct2, THEN conjunct2, THEN conjunct2] h5
  have "unmarshalPayload (Holding (Some
         (JObject [(''refChanges'', JArray [JObject [(''refId'', JString ''refs/heads/master'')]]),
                   (''refChanges'', JArray [JObject []])]))) =
          Return (Some (BitbucketServer \<lparr>RefChanges = [\<lparr>RefID = ''refs/heads/master''\<rparr>]\<rparr>), None)
        \<and> Ref (BitbucketServer \<lparr>RefChanges = [\<lparr>RefID = ''refs/heads/master''\<rparr>]\<rparr>) =
            (if \<exists>r \<in> set (RefChanges \<lparr>RefChanges = [\<lparr>RefID = ''refs/heads/master''\<rparr>]\<rparr>).
                   RefID r = ''refs/heads/master''
             then ''refs/heads/master'' else ''not master'')"
    by (rule mp)
  then have r5: "unmarshalPayload (Holding (Some
         (JObject [(''refChanges'', JArray [JObject [(''refId'', JString ''refs/heads/master'')]]),
                   (''refChanges'', JArray [JObject []])]))) =
       Return (Some (BitbucketServer \<lparr>RefChanges = [\<lparr>RefID = ''refs/heads/master''\<rparr>]\<rparr>), None)"
    by (rule conjunct1)
  from h1 r1 r2 h2 r3 r4 h3 e1 h4 e2 h5 r5 show ?thesis by blast
qed

lemmas payload_defs =
  unmarshalPayload_def services_def toLower_def BitbucketServerWebhook_Ref_def
  GitLabWebhook_Ref_def post_def push_master_def push_feature_def gitlab_push_master_def
  bitbucket_push_def

lemmas library_defs =
  OpenRepositoryExtended_def LookupRemote_def Fetch_def LookupReference_def
  AnnotatedCommitFromRef_def Merge_def LookupCommit_def Tree_def CheckoutTree_def Head_def
  SetTarget_def StateCleanup_def attempt_def resolve_HEAD_def

lemmas handler_defs =
  handleWebhook_def guarded_def synchronize_def checked_def dropped_def http500_def http_Error_def Let_def

lemmas example_defs =
  config_def hooks_def demo_repo_def demo_git_def healthy_def locked_def
  demo_reference_def demo_HEAD_def

lemma object_BitbucketServerWebhook_unmatched:
  "\<forall>(k, v) \<in> set kvs. \<not> equalFold ''refChanges'' k \<Longrightarrow>
     object_BitbucketServerWebhook kvs st = (None, st)"
  by (induction kvs arbitrary: st) auto

lemma decode_GitLabWebhook_unchanged: "snd (decode_GitLabWebhook j w) = w"
  by (cases j) simp_all

text \<open>
  Whatever the body, a \<open>GitLabWebhook\<close> that \<open>unmarshalPayload\<close> returns is the zero value
  the loop started with.
\<close>

lemma unmarshalPayload_GitLab:
  assumes "unmarshalPayload rd = Return (Some (GitLab g), err)"
  shows "g = \<lparr>ref = ''''\<rparr>"
proof (cases rd)
  case (Broken e)
  with assms show ?thesis by (simp add: unmarshalPayload_def)
next
  case (Holding d)
  show ?thesis
  proof (cases d)
    case None
    with assms Holding show ?thesis by (simp add: unmarshalPayload_def services_def)
  next
    case (Some j)
    have "snd (decode_GitLabWebhook j \<lparr>ref = ''''\<rparr>) = \<lparr>ref = ''''\<rparr>"
      by (rule decode_GitLabWebhook_unchanged)
    with assms Holding Some show ?thesis
      by (cases "j = JNull")
         (auto simp: unmarshalPayload_def services_def split: prod.splits option.splits
               elim!: Unmarshal.elims)
  qed
qed

text \<open>
  Claim C2 (the code departs from it). When neither decoder parses the body, the loop of
  \<open>unmarshalPayload\<close> falls through to \<open>return nil, err\<close>, where \<open>err\<close> is the nil error of
  \<open>ioutil.ReadAll\<close>: the function returns a nil \<open>Ref\<close> and a nil error, no decode error.
  The handler passes its \<open>err != nil\<close> test and panics at \<open>ref.Ref()\<close> without writing a
  response. The witness is a body that is not JSON.
\<close>

theorem C2_no_decoder_parses:
  assumes "fst (Unmarshal d (BitbucketServer \<lparr>RefChanges = []\<rparr>)) \<noteq> None"
    and "fst (Unmarshal d (GitLab \<lparr>ref = ''''\<rparr>)) \<noteq> None"
  shows "unmarshalPayload (Holding d) = Return (None, None)
       \<and> handleWebhook c w (post p d) =
           \<lparr>trace = [], after = w,
            panic = Some ''runtime error: invalid memory address or nil pointer dereference''\<rparr>"
proof -
  have "unmarshalPayload (Holding d) = Return (None, None)"
    using assms
    by (auto simp: unmarshalPayload_def services_def split: prod.splits option.splits)
  then show ?thesis
    by (simp add: handleWebhook_def post_def)
qed

theorem C2_no_decoder_parses_witness:
  "fst (Unmarshal None (BitbucketServer \<lparr>RefChanges = []\<rparr>)) = Some SyntaxError
   \<and> fst (Unmarshal None (GitLab \<lparr>ref = ''''\<rparr>)) = Some SyntaxError
   \<and> unmarshalPayload (Holding None) = Return (None, None)
   \<and> handleWebhook config (hooks healthy) (post ''/demo'' None) =
       \<lparr>trace = [], after = hooks healthy,
        panic = Some ''runtime error: invalid memory address or nil pointer dereference''\<rparr>"
proof -
  have h1: "fst (Unmarshal None (BitbucketServer \<lparr>RefChanges = []\<rparr>)) \<noteq> None" by simp
  have h2: "fst (Unmarshal None (GitLab \<lparr>ref = ''''\<rparr>)) \<noteq> None" by simp
  from C2_no_decoder_parses [OF h1 h2, of config "hooks healthy" "''/demo''"]
  show ?thesis by simp
qed

text \<open>
  Claim C3 (the code departs from it). The GitLab body \<open>{"ref":"refs/heads/master"}\<close> is a
  JSON object, so the first decoder takes it: it has no member \<open>refChanges\<close>, the result is
  a \<open>BitbucketServerWebhook\<close> without records, \<open>Ref()\<close> is \<open>not master\<close>, and the handler
  answers 500 without touching the repository.
\<close>

theorem C3_gitlab_push_is_not_master:
  "unmarshalPayload (Holding (Some gitlab_push_master)) =
     Return (Some (BitbucketServer \<lparr>RefChanges = []\<rparr>), None)
   \<and> Ref (BitbucketServer \<lparr>RefChanges = []\<rparr>) = ''not master''
   \<and> handleWebhook config (hooks healthy) (post ''/demo'' (Some gitlab_push_master)) =
       \<lparr>trace = [Log ''ignoring changeset on '%s', not a change on master'', http_Error ''500'' 500],
        after = hooks healthy, panic = None\<rparr>"
  by (simp add: payload_defs handleWebhook_def http500_def)

text \<open>
  Claim C4 (the code departs from it). A body that is valid JSON but no object, here \<open>[]\<close>,
  makes the handler panic at \<open>ref.Ref()\<close> on a nil interface; the body \<open>null\<close> makes
  \<open>unmarshalPayload\<close> panic at \<open>s.(Ref)\<close>. In both runs the handler ends without having
  written a response.
\<close>

theorem C4_panic_without_response:
  "handleWebhook config (hooks healthy) (post ''/demo'' (Some (JArray []))) =
     \<lparr>trace = [], after = hooks healthy,
      panic = Some ''runtime error: invalid memory address or nil pointer dereference''\<rparr>
   \<and> responses (trace (handleWebhook config (hooks healthy) (post ''/demo'' (Some (JArray [])))))
       = []
   \<and> handleWebhook config (hooks healthy) (post ''/demo'' (Some JNull)) =
     \<lparr>trace = [], after = hooks healthy,
      panic = Some ''interface conversion: interface is nil, not main.Ref''\<rparr>"
  by (simp add: payload_defs handleWebhook_def)



section \<open>Which decoder is chosen, and what starts a synchronization\<close>

text \<open>The mutex is taken only for a payload that passed the check for master.\<close>

lemma Lock_trace:
  assumes "Lock \<in> set (trace (handleWebhook c w r))"
  shows "\<exists>s. unmarshalPayload (Body r) = Return (Some s, None) \<and> Ref s = ''refs/heads/master''"
proof (rule ccontr)
  assume n: "\<not> ?thesis"
  have "Lock \<notin> set (trace (handleWebhook c w r))"
    using n
    by (auto simp: handleWebhook_def http500_def http_Error_def
             split: go.splits option.splits prod.splits)
  with assms show False by simp
qed

text \<open>
  Claim C10, as stated, fails: the body \<open>{"refChanges":5}\<close> is a JSON object, the first
  decoder rejects it (a number where a list is expected), and \<open>unmarshalPayload\<close> returns
  the value of the second decoder, a \<open>GitLabWebhook\<close>.
\<close>

theorem C10_wrong_type_counterexample:
  "fst (decode_BitbucketServerWebhook (JObject [(''refChanges'', JNumber ''5'')])
          \<lparr>RefChanges = []\<rparr>) = Some (UnmarshalTypeError ''number'')
   \<and> unmarshalPayload (Holding (Some (JObject [(''refChanges'', JNumber ''5'')]))) =
       Return (Some (GitLab \<lparr>ref = ''''\<rparr>), None)"
  by (simp add: unmarshalPayload_def services_def toLower_def)

text \<open>
  Claim C10, amended. For a body that is a JSON object, \<open>unmarshalPayload\<close> returns the
  value of the first decoder when that decoder reports no error, and the value of the
  GitLab decoder otherwise; the first decoder reports no error whenever no member's key
  matches \<open>refChanges\<close>. A \<open>GitLabWebhook\<close> that \<open>unmarshalPayload\<close> returns always has the
  empty string as its \<open>Ref()\<close>. So the handler reaches the mutex, and with it the
  synchronization, only when the body was decoded by the first decoder and one of the
  decoded records has \<open>RefID\<close> exactly \<open>refs/heads/master\<close>.
\<close>

theorem C10_decoder_selection:
  "unmarshalPayload (Holding (Some (JObject kvs))) =
     (case decode_BitbucketServerWebhook (JObject kvs) \<lparr>RefChanges = []\<rparr> of
        (None, b) \<Rightarrow> Return (Some (BitbucketServer b), None)
      | (Some e, b) \<Rightarrow> Return (Some (GitLab \<lparr>ref = ''''\<rparr>), None))
   \<and> ((\<forall>(k, v) \<in> set kvs. \<not> equalFold ''refChanges'' k) \<longrightarrow>
        unmarshalPayload (Holding (Some (JObject kvs))) =
          Return (Some (BitbucketServer \<lparr>RefChanges = []\<rparr>), None))
   \<and> (unmarshalPayload rd = Return (Some (GitLab g), err) \<longrightarrow> Ref (GitLab g) = '''')
   \<and> (Lock \<in> set (trace (handleWebhook c w r)) \<longrightarrow>
        (\<exists>b. unmarshalPayload (Body r) = Return (Some (BitbucketServer b), None)
           \<and> (\<exists>rc \<in> set (RefChanges b). RefID rc = ''refs/heads/master'')))"
proof (intro conjI impI)
  show "unmarshalPayload (Holding (Some (JObject kvs))) =
     (case decode_BitbucketServerWebhook (JObject kvs) \<lparr>RefChanges = []\<rparr> of
        (None, b) \<Rightarrow> Return (Some (BitbucketServer b), None)
      | (Some e, b) \<Rightarrow> Return (Some (GitLab \<lparr>ref = ''''\<rparr>), None))"
    by (rule unmarshalPayload_object)
next
  assume "\<forall>(k, v) \<in> set kvs. \<not> equalFold ''refChanges'' k"
  then show "unmarshalPayload (Holding (Some (JObject kvs))) =
          Return (Some (BitbucketServer \<lparr>RefChanges = []\<rparr>), None)"
    by (simp add: unmarshalPayload_object object_BitbucketServerWebhook_unmatched)
next
  assume "unmarshalPayload rd = Return (Some (GitLab g), err)"
  then have "g = \<lparr>ref = ''''\<rparr>" by (rule unmarshalPayload_GitLab)
  then show "Ref (GitLab g) = ''''" by (simp add: GitLabWebhook_Ref_def)
next
  assume "Lock \<in> set (trace (handleWebhook c w r))"
  then obtain s where s: "unmarshalPayload (Body r) = Return (Some s, None)"
    and m: "Ref s = ''refs/heads/master''"
    using Lock_trace by blast
  show "\<exists>b. unmarshalPayload (Body r) = Return (Some (BitbucketServer b), None)
           \<and> (\<exists>rc \<in> set (RefChanges b). RefID rc = ''refs/heads/master'')"
  proof (cases s)
    case (BitbucketServer b)
    with m have "\<exists>rc \<in> set (RefChanges b). RefID rc = ''refs/heads/master''"
      by (simp add: BitbucketServerWebhook_Ref_def range_RefChanges_iff split: if_splits)
    with s BitbucketServer show ?thesis by blast
  next
    case (GitLab g)
    with s have "g = \<lparr>ref = ''''\<rparr>" using unmarshalPayload_GitLab by blast
    with m GitLab show ?thesis by (simp add: GitLabWebhook_Ref_def)
  qed
qed

theorem C10_decoder_selection_witness:
  "unmarshalPayload (Holding (Some (JObject [(''ref'', JString ''refs/heads/master'')]))) =
     Return (Some (BitbucketServer \<lparr>RefChanges = []\<rparr>), None)
   \<and> unmarshalPayload (Holding (Some (JObject [(''refChanges'', JBool True)]))) =
       Return (Some (GitLab \<lparr>ref = ''''\<rparr>), None)
   \<and> Ref (GitLab \<lparr>ref = ''''\<rparr>) = ''''
   \<and> Lock \<in> set (trace (handleWebhook config (hooks healthy) (post ''/demo'' (Some push_master))))
   \<and> (\<exists>b. unmarshalPayload (Body (post ''/demo'' (Some push_master))) =
             Return (Some (BitbucketServer b), None)
          \<and> (\<exists>rc \<in> set (RefChanges b). RefID rc = ''refs/heads/master''))"
proof -
  have h1: "\<forall>(k, v) \<in> set [(''ref'', JString ''refs/heads/master'')].
              \<not> equalFold ''refChanges'' k"
    by (simp add: toLower_def)
  have h2: "unmarshalPayload (Holding (Some (JObject [(''refChanges'', JBool True)]))) =
       Return (Some (GitLab \<lparr>ref = ''''\<rparr>), None)"
    by (simp add: payload_defs)
  have h3: "Lock \<in> set (trace (handleWebhook config (hooks healthy)
              (post ''/demo'' (Some push_master))))"
    by (simp add: payload_defs handler_defs library_defs example_defs)
  note t = C10_decoder_selection
    [where kvs = "[(''ref'', JString ''refs/heads/master'')]"
       and rd = "Holding (Some (JObject [(''refChanges'', JBool True)]))"
       and g = "\<lparr>ref = ''''\<rparr>" and err = None
       and c = config and w = "hooks healthy" and r = "post ''/demo'' (Some push_master)"]
  from t h1 have a:
    "unmarshalPayload (Holding (Some (JObject [(''ref'', JString ''refs/heads/master'')]))) =
       Return (Some (BitbucketServer \<lparr>RefChanges = []\<rparr>), None)" by blast
  from t h2 have b: "Ref (GitLab \<lparr>ref = ''''\<rparr>) = ''''" by blast
  from t h3 have c: "\<exists>b. unmarshalPayload (Body (post ''/demo'' (Some push_master))) =
             Return (Some (BitbucketServer b), None)
          \<and> (\<exists>rc \<in> set (RefChanges b). RefID rc = ''refs/heads/master'')" by blast
  from a h2 b h3 c show ?thesis by blast
qed

section \<open>The responses of the handler\<close>














section \<open>The synchronization\<close>

text \<open>
  When a checked call is part of a run that ends with \<open>200 ok\<close>, the call succeeded and
  the rest of the run ends with \<open>200 ok\<close>.
\<close>

lemma checked_post:
  assumes "responses (fst (checked st res msg repo continue)) = [(200, ''ok'')]"
    and "\<And>x. res = Inr x \<Longrightarrow> responses (fst (continue x)) = [(200, ''ok'')]
            \<Longrightarrow> Q (snd (continue x))"
  shows "Q (snd (checked st res msg repo continue))"
proof (cases res)
  case (Inl err)
  with assms(1) show ?thesis by (simp add: checked_def http500_def http_Error_def)
next
  case (Inr x)
  with assms(1) have "responses (fst (continue x)) = [(200, ''ok'')]"
    by (simp add: checked_def split: prod.splits)
  with assms(2) Inr have "Q (snd (continue x))" by blast
  with Inr show ?thesis by (auto simp: checked_def split: prod.splits)
qed

lemma attempt_Inr: "attempt f st res = Inr x \<Longrightarrow> f st = None \<and> res = Inr x"
  by (simp add: attempt_def split: option.splits)

text \<open>
  What the code achieves: a run that ends with \<open>200 ok\<close>, and in which the two writes
  of step 7 did not fail, leaves local master and HEAD at the commit of the
  remote-tracking branch.
\<close>

lemma synchronize_success:
  assumes ok: "responses (fst (synchronize f repo)) = [(200, ''ok'')]"
    and l: "f SetLocalTarget = None" and h: "f SetHeadTarget = None"
  shows "in_sync (snd (synchronize f repo))"
  using ok unfolding synchronize_def Let_def
proof (elim checked_post [where Q = in_sync])
  fix remote fetched remoteRef remHead merged remCommit remTree checkedout head localBranch
  assume f: "Fetch f remote repo = Inr fetched"
    and rr: "LookupReference f RemoteRefLookup fetched ''refs/remotes/origin/master''
               = Inr remoteRef"
    and m: "Merge f fetched [remHead] = Inr merged"
    and c: "CheckoutTree f merged remTree = Inr checkedout"
    and hd: "Head f checkedout = Inr head"
    and lb: "LookupReference f LocalRefLookup checkedout ''refs/heads/master''
               = Inr localBranch"
  from rr have t: "references fetched ''refs/remotes/origin/master'' = Some (Target remoteRef)"
    by (auto simp: LookupReference_def dest!: attempt_Inr split: option.splits)
  from m have m': "merged = fetched\<lparr>state := StateMerge\<rparr>"
    by (auto simp: Merge_def dest!: attempt_Inr)
  from c have c': "checkedout = merged"
    by (auto simp: CheckoutTree_def dest!: attempt_Inr)
  from lb have n: "Name localBranch = ''refs/heads/master''"
    by (auto simp: LookupReference_def dest!: attempt_Inr split: option.splits)
  from hd have hn: "(HEAD checkedout = Attached (Name head) \<and> Name head \<noteq> ''HEAD'')
                  \<or> Name head = ''HEAD''"
    by (auto simp: Head_def dest!: attempt_Inr split: option.splits Head.splits)
  from t m' c' n hn l h
  show "in_sync
     (snd ([Git SetLocalTarget, Git SetHeadTarget, Git Cleanup, Log ''repository '%s' updated.'',
            Respond 200 ''ok''],
           dropped
            (StateCleanup f
              (dropped
                (SetTarget f SetHeadTarget
                  (dropped (SetTarget f SetLocalTarget checkedout localBranch (Target remoteRef))
                    checkedout)
                  head (Target remoteRef))
                (dropped (SetTarget f SetLocalTarget checkedout localBranch (Target remoteRef))
                  checkedout)))
            (dropped
              (SetTarget f SetHeadTarget
                (dropped (SetTarget f SetLocalTarget checkedout localBranch (Target remoteRef))
                  checkedout)
                head (Target remoteRef))
              (dropped (SetTarget f SetLocalTarget checkedout localBranch (Target remoteRef))
                checkedout))))"
    by (cases "f Cleanup")
       (auto simp: in_sync_def SetTarget_def StateCleanup_def attempt_def dropped_def
          resolve_HEAD_def)
qed

text \<open>
  Claim C5 (the code departs from it). With a lock file on \<open>refs/heads/master\<close> both
  \<open>SetTarget\<close> calls of step 7 return an error. The handler drops the results of both
  calls: the run goes on to \<open>StateCleanup\<close>, logs that the repository was updated and
  answers \<open>200 ok\<close>.
\<close>

theorem C5_ref_update_failure_is_success:
  "fault (hooks locked) SetLocalTarget = Some (GitError ''failed to lock file for writing'')
   \<and> fault (hooks locked) SetHeadTarget = Some (GitError ''failed to lock file for writing'')
   \<and> trace (handleWebhook config (hooks locked) (post ''/demo'' (Some push_master))) =
       [Log (''updating repository '%s'' @ [CHR 0x27]), Lock,
        Os_Stat (Join [''/srv/hooks'', ''/demo'']),
        Os_Stat (Join [''/srv/hooks'', ''/demo'', ''.git'']),
        Git Open, Git RemoteLookup, Git FetchOrigin, Git RemoteRefLookup, Git AnnotatedCommit,
        Git MergeRemote, Git CommitLookup, Git TreeLookup, Git Checkout, Git HeadLookup,
        Git LocalRefLookup, Git SetLocalTarget, Git SetHeadTarget, Git Cleanup,
        Log ''repository '%s' updated.'', Respond 200 ''ok'', Unlock]"
  by (simp add: payload_defs handler_defs library_defs example_defs)

lemma first_run_after:
  "after first_run =
     \<lparr>Stat = Stat (hooks locked),
      repositories = [demo_git \<mapsto>
        demo_repo\<lparr>references :=
                    [''refs/heads/master'' \<mapsto> 1, ''refs/remotes/origin/master'' \<mapsto> 2],
                  state := StateNone\<rparr>],
      fault = locked\<rparr>
   \<and> responses (trace first_run) = [(200, ''ok'')]"
  by (simp add: first_run_def payload_defs handler_defs library_defs example_defs)

lemma second_run_after:
  "after second_run =
     \<lparr>Stat = Stat (hooks locked),
      repositories = [demo_git \<mapsto>
        demo_repo\<lparr>references :=
                    [''refs/remotes/origin/master'' \<mapsto> 2, ''refs/heads/master'' \<mapsto> 2],
                  state := StateNone\<rparr>],
      fault = healthy\<rparr>
   \<and> responses (trace second_run) = [(200, ''ok'')]"
  unfolding second_run_def
  by (simp add: first_run_after)
     (simp add: payload_defs handler_defs library_defs example_defs)

text \<open>
  Claim C1 (the code departs from it). The first delivery, made while the lock file is
  there, reports success, and afterwards the remote-tracking branch is at commit 2 while
  local master and HEAD are still at commit 1. The second delivery, with no new commit on
  the remote, reports success as well and ends at commit 2: the two runs do not end at
  the same commit.
\<close>

theorem C1_success_without_update:
  "responses (trace first_run) = [(200, ''ok'')]
   \<and> demo_reference (after first_run) ''refs/remotes/origin/master'' = Some 2
   \<and> demo_reference (after first_run) ''refs/heads/master'' = Some 1
   \<and> demo_HEAD (after first_run) = Some 1
   \<and> responses (trace second_run) = [(200, ''ok'')]
   \<and> demo_reference (after second_run) ''refs/remotes/origin/master'' = Some 2
   \<and> demo_reference (after second_run) ''refs/heads/master'' = Some 2
   \<and> demo_HEAD (after second_run) = Some 2"
  by (simp add: first_run_after second_run_after)
     (simp add: demo_reference_def demo_HEAD_def resolve_HEAD_def demo_repo_def)

section \<open>The lock\<close>


























end
